theory Spec2Isabelle
  imports Complex_Main
begin

section \<open>Strings\<close>

text \<open>
  A JavaScript string is modelled by the HOL string of its UTF-8 bytes, so that an ASCII
  character is one \<open>char\<close> and any other character is a sequence of bytes from 128 upwards.
  One string occurs in another exactly when its bytes occur in the bytes of the other.
\<close>

text \<open>\<open>starts_with s t\<close>: the string \<open>s\<close> begins with \<open>t\<close>.\<close>

fun starts_with :: "string \<Rightarrow> string \<Rightarrow> bool" where
  "starts_with s [] = True"
| "starts_with [] (c # t) = False"
| "starts_with (d # s) (c # t) = (d = c \<and> starts_with s t)"

text \<open>
  \<open>String.prototype.toLowerCase\<close>. The ASCII letters \<open>A\<close> to \<open>Z\<close> go to \<open>a\<close> to \<open>z\<close>. Two
  other characters have an ASCII letter in their lower-case form: the Kelvin sign U+212A,
  which goes to \<open>k\<close>, and the capital I with dot above U+0130, which goes to \<open>i\<close> followed by
  the combining dot above U+0307. Every other character is left as it is here; JavaScript
  may give another character for it, which is not ASCII either and is never removed.
\<close>

definition lower_char :: "char \<Rightarrow> char" where
  "lower_char c =
     (let n = (of_char c :: nat) in if 65 \<le> n \<and> n \<le> 90 then char_of (n + 32) else c)"

definition kelvin_sign :: string where
  "kelvin_sign = [CHR 0xE2, CHR 0x84, CHR 0xAA]"

definition capital_i_with_dot :: string where
  "capital_i_with_dot = [CHR 0xC4, CHR 0xB0]"

definition combining_dot_above :: string where
  "combining_dot_above = [CHR 0xCC, CHR 0x87]"

function toLowerCase :: "string \<Rightarrow> string" where
  "toLowerCase [] = []"
| "toLowerCase (c # s) =
     (if starts_with (c # s) kelvin_sign then CHR ''k'' # toLowerCase (drop 2 s)
      else if starts_with (c # s) capital_i_with_dot
      then CHR ''i'' # combining_dot_above @ toLowerCase (drop 1 s)
      else lower_char c # toLowerCase s)"
  by pat_completeness auto
termination
  by (relation "measure length") auto

text \<open>\<open>String.prototype.includes\<close>: \<open>includes_str s t\<close> is \<open>s.includes(t)\<close>.\<close>

fun includes_str :: "string \<Rightarrow> string \<Rightarrow> bool" where
  "includes_str [] t = (t = [])"
| "includes_str (c # s) t = (starts_with (c # s) t \<or> includes_str s t)"

section \<open>Error classification (\<open>getErrorType\<close>)\<close>

text \<open>
  A thrown value, as \<open>getErrorType\<close> reads it: \<open>null\<close> or \<open>undefined\<close>; or a value whose
  \<open>message\<close> is \<open>null\<close> or \<open>undefined\<close> (\<open>None\<close>, as it is for a thrown string or number) or a
  string; or an object whose \<open>message\<close> is any other value: a number, a boolean, or an
  object that has no method \<open>toLowerCase\<close>.
\<close>

datatype other_value = NumberValue int | BooleanValue bool | PlainObject

datatype js_error = Nullish | ErrorObject "string option" | ErrorObjectWith other_value

datatype error_type = Network | Permission | NotFound | Timeout | Conflict | Default

text \<open>
  The exceptions of the modelled code itself. In \<open>error?.message?.toLowerCase()\<close> the
  optional chaining stops at a \<open>null\<close> or \<open>undefined\<close> error or message only: on any other
  message that is not a string \<open>toLowerCase\<close> is \<open>undefined\<close>, and calling it throws a
  \<open>TypeError\<close>. \<open>caught\<close> is the value a \<open>catch\<close> clause or the handler of a rejected promise
  receives for it; the wording of its message is that of V8, and no engine words it with a
  token of the classifier.
\<close>

datatype exception = TypeError

definition type_error_text :: string where
  "type_error_text = ''error?.message?.toLowerCase is not a function''"

definition caught :: "exception \<Rightarrow> js_error" where
  "caught exn = (case exn of TypeError \<Rightarrow> ErrorObject (Some type_error_text))"

text \<open>
  \<open>to_lower_or_empty\<close> is \<open>error?.message?.toLowerCase() || ''\<close>; an empty lower-cased
  message is falsy and gives the empty string as well.
\<close>

definition to_lower_or_empty :: "js_error \<Rightarrow> exception + string" where
  "to_lower_or_empty error =
     (case error of
        Nullish \<Rightarrow> Inr ''''
      | ErrorObject None \<Rightarrow> Inr ''''
      | ErrorObject (Some m) \<Rightarrow> Inr (toLowerCase m)
      | ErrorObjectWith v \<Rightarrow> Inl TypeError)"

definition getErrorType :: "js_error \<Rightarrow> exception + error_type" where
  "getErrorType error =
     (case to_lower_or_empty error of
        Inl exn \<Rightarrow> Inl exn
      | Inr message \<Rightarrow>
          Inr (if includes_str message ''network'' \<or> includes_str message ''fetch''
                  \<or> includes_str message ''connection'' then Network
               else if includes_str message ''permission''
                  \<or> includes_str message ''unauthorized''
                  \<or> includes_str message ''forbidden'' then Permission
               else if includes_str message ''not found'' \<or> includes_str message ''404''
               then NotFound
               else if includes_str message ''timeout'' then Timeout
               else if includes_str message ''conflict'' \<or> includes_str message ''409''
               then Conflict
               else Default))"

text \<open>
  The classification as the specification words it: a table of token groups in priority
  order, the first group with a token occurring in the lower-cased message wins.
\<close>

definition occurs_in :: "string \<Rightarrow> string \<Rightarrow> bool" where
  "occurs_in t s = (\<exists>ps ss. s = ps @ t @ ss)"

definition priority_table :: "(string list \<times> error_type) list" where
  "priority_table =
     [([''network'', ''fetch'', ''connection''], Network),
      ([''permission'', ''unauthorized'', ''forbidden''], Permission),
      ([''not found'', ''404''], NotFound),
      ([''timeout''], Timeout),
      ([''conflict'', ''409''], Conflict)]"

fun first_match :: "(string list \<times> error_type) list \<Rightarrow> string \<Rightarrow> error_type" where
  "first_match [] s = Default"
| "first_match ((tokens, c) # rest) s =
     (if list_ex (\<lambda>t. occurs_in t s) tokens then c else first_match rest s)"

section \<open>Error guidance (\<open>handleDeleteError\<close>)\<close>

datatype action = Retry | Reauth | Refresh | NoAction

datatype severity = Info | Warning | Error

text \<open>
  The user-facing texts of the table are fixed Japanese sentences; each is represented by a
  tag, and the default text carries the project title that the source interpolates into it.
\<close>

datatype guidance_text =
    NetworkText | PermissionText | NotFoundText | TimeoutText | ConflictText
  | DefaultText string

record error_info =
  message :: guidance_text
  action :: action
  severity :: severity
  retryable :: bool

fun errorMappings :: "string \<Rightarrow> error_type \<Rightarrow> error_info" where
  "errorMappings projectTitle Network =
     \<lparr>message = NetworkText, action = Retry, severity = Warning, retryable = True\<rparr>"
| "errorMappings projectTitle Permission =
     \<lparr>message = PermissionText, action = Reauth, severity = Error, retryable = False\<rparr>"
| "errorMappings projectTitle NotFound =
     \<lparr>message = NotFoundText, action = Refresh, severity = Info, retryable = False\<rparr>"
| "errorMappings projectTitle Timeout =
     \<lparr>message = TimeoutText, action = Retry, severity = Warning, retryable = True\<rparr>"
| "errorMappings projectTitle Conflict =
     \<lparr>message = ConflictText, action = Refresh, severity = Warning, retryable = False\<rparr>"
| "errorMappings projectTitle Default =
     \<lparr>message = DefaultText projectTitle, action = NoAction, severity = Error,
      retryable = True\<rparr>"

definition handleDeleteError :: "js_error \<Rightarrow> string \<Rightarrow> exception + error_info" where
  "handleDeleteError error projectTitle =
     (case getErrorType error of
        Inl exn \<Rightarrow> Inl exn
      | Inr errorType \<Rightarrow> Inr (errorMappings projectTitle errorType))"

section \<open>Projects, callbacks and the trace of calls\<close>

text \<open>
  A project snapshot. \<open>created_at\<close> holds the time value of \<open>new Date(p.created_at)\<close>,
  \<open>None\<close> when that is an invalid date (NaN), as it is when the field is absent.
\<close>

record project =
  proj_id :: string
  title :: string
  created_at :: "int option"

text \<open>
  The caller's state-update callback is a function of the caller; the model knows it by a
  handle and records every call made to it. The two closures that the manager passes to it
  are represented by their captured variables; \<open>apply_transform\<close> is their body.
\<close>

type_synonym callback = nat

datatype transform = RemoveById string | Reinsert string project





text \<open>What is written to the console, by the kind of message and its arguments.\<close>

datatype console_message =
    RetryWarning nat int int js_error
  | DeleteErrorLog js_error
  | LeakWarning string int

text \<open>
  The calls that leave the modelled code, in the order they are made: to the caller's
  callbacks, to the delete operation, to the timer of the backoff, to the console and to
  the two global instruments of the performance module.
\<close>

datatype event =
    UpdateCall callback transform
  | DeleteCall string
  | Wait int
  | Console console_message
  | StartOperation string
  | EndOperation string
  | TrackObject project string
  | UntrackObject project
  | SuccessCall string "project option"
  | ErrorCall string js_error error_info

section \<open>\<open>OptimisticDeleteManager\<close>\<close>

text \<open>
  Snapshots are objects and callbacks are functions, both truthy, so the test
  \<open>projectData && rollbackCallback\<close> of \<open>rollbackDelete\<close> is the presence of both entries.
  Each operation returns the manager and the calls it made.
\<close>

record optimistic_manager =
  deletedProjects :: "string \<rightharpoonup> project"
  rollbackCallbacks :: "string \<rightharpoonup> callback"

definition new_optimistic_manager :: optimistic_manager where
  "new_optimistic_manager = \<lparr>deletedProjects = Map.empty, rollbackCallbacks = Map.empty\<rparr>"

definition optimisticDelete ::
  "string \<Rightarrow> project \<Rightarrow> callback \<Rightarrow> optimistic_manager \<Rightarrow> optimistic_manager \<times> event list"
where
  "optimisticDelete projectId projectData updateStateCallback m =
     (m\<lparr>deletedProjects := (deletedProjects m)(projectId \<mapsto> projectData),
        rollbackCallbacks := (rollbackCallbacks m)(projectId \<mapsto> updateStateCallback)\<rparr>,
      [UpdateCall updateStateCallback (RemoveById projectId)])"

definition confirmDelete :: "string \<Rightarrow> optimistic_manager \<Rightarrow> optimistic_manager" where
  "confirmDelete projectId m =
     m\<lparr>deletedProjects := (deletedProjects m)(projectId := None),
       rollbackCallbacks := (rollbackCallbacks m)(projectId := None)\<rparr>"

definition rollbackDelete ::
  "string \<Rightarrow> optimistic_manager \<Rightarrow> optimistic_manager \<times> event list"
where
  "rollbackDelete projectId m =
     (case (deletedProjects m projectId, rollbackCallbacks m projectId) of
        (Some projectData, Some rollbackCallback) \<Rightarrow>
          (m\<lparr>deletedProjects := (deletedProjects m)(projectId := None),
             rollbackCallbacks := (rollbackCallbacks m)(projectId := None)\<rparr>,
           [UpdateCall rollbackCallback (Reinsert projectId projectData)])
      | _ \<Rightarrow> (m, []))"

definition clearAll :: "optimistic_manager \<Rightarrow> optimistic_manager" where
  "clearAll m = m\<lparr>deletedProjects := Map.empty, rollbackCallbacks := Map.empty\<rparr>"

text \<open>Sequences of manager operations, run from a given manager.\<close>

datatype manager_op =
    OptimisticDelete string project callback
  | ConfirmDelete string
  | RollbackDelete string
  | ClearAll

fun manager_step :: "manager_op \<Rightarrow> optimistic_manager \<Rightarrow> optimistic_manager" where
  "manager_step (OptimisticDelete i d cb) m = fst (optimisticDelete i d cb m)"
| "manager_step (ConfirmDelete i) m = confirmDelete i m"
| "manager_step (RollbackDelete i) m = fst (rollbackDelete i m)"
| "manager_step ClearAll m = clearAll m"

definition run_manager :: "manager_op list \<Rightarrow> optimistic_manager \<Rightarrow> optimistic_manager" where
  "run_manager ops m = fold manager_step ops m"

definition pending :: "optimistic_manager \<Rightarrow> string \<Rightarrow> bool" where
  "pending m projectId =
     (deletedProjects m projectId \<noteq> None \<and> rollbackCallbacks m projectId \<noteq> None)"

section \<open>\<open>DeleteRetryManager\<close>\<close>

text \<open>
  The delete operation is supplied by the caller and may answer differently each time it is
  called: it is modelled by its answers, \<open>deleteFunction projectId n\<close> being how the call
  made after \<open>n\<close> earlier calls settles. \<open>calls\<close> counts the calls made so far.
\<close>

datatype 'r outcome = Resolve 'r | Reject js_error

record io =
  calls :: nat
  trace :: "event list"

record retry_manager =
  maxRetries :: int
  baseDelay :: int

definition new_retry_manager :: "int \<Rightarrow> int \<Rightarrow> retry_manager" where
  "new_retry_manager maxRetries' baseDelay' =
     \<lparr>maxRetries = maxRetries', baseDelay = baseDelay'\<rparr>"

function retryDelete ::
  "retry_manager \<Rightarrow> (string \<Rightarrow> nat \<Rightarrow> 'r outcome) \<Rightarrow> string \<Rightarrow> nat \<Rightarrow> 'a io_scheme
     \<Rightarrow> 'r outcome \<times> 'a io_scheme"
where
  "retryDelete m deleteFunction projectId attempt w =
     (case deleteFunction projectId (calls w) of
        Resolve result \<Rightarrow>
          (Resolve result,
           w\<lparr>calls := Suc (calls w), trace := trace w @ [DeleteCall projectId]\<rparr>)
      | Reject error \<Rightarrow>
          (case handleDeleteError error '''' of
             Inl exn \<Rightarrow>
               (Reject (caught exn),
                w\<lparr>calls := Suc (calls w), trace := trace w @ [DeleteCall projectId]\<rparr>)
           | Inr errorInfo \<Rightarrow>
               (if retryable errorInfo \<and> int attempt < maxRetries m
                then retryDelete m deleteFunction projectId (attempt + 1)
                       (w\<lparr>calls := Suc (calls w),
                          trace := trace w @
                            [DeleteCall projectId,
                             Console (RetryWarning (attempt + 1) (maxRetries m)
                                        (baseDelay m * 2 ^ attempt) error),
                             Wait (baseDelay m * 2 ^ attempt)]\<rparr>)
                else (Reject error,
                      w\<lparr>calls := Suc (calls w),
                        trace := trace w @ [DeleteCall projectId]\<rparr>))))"
  by pat_completeness auto
termination
  by (relation "measure (\<lambda>(m, f, p, attempt, w). nat (maxRetries m - int attempt))") auto

section \<open>\<open>DeleteStatsManager\<close>\<close>

text \<open>
  Counters are natural numbers, times are integers of milliseconds, and the two quotients
  (the average and the success rate) are taken exactly, over the rationals, where JavaScript
  rounds them to a double. \<open>Date.now()\<close> is an input of the operation that reads it.
\<close>

record stats =
  totalDeletes :: nat
  successfulDeletes :: nat
  failedDeletes :: nat
  errorTypes :: "error_type \<rightharpoonup> nat"
  averageResponseTime :: rat
  responseTimes :: "int list"

definition new_stats :: stats where
  "new_stats =
     \<lparr>totalDeletes = 0, successfulDeletes = 0, failedDeletes = 0, errorTypes = Map.empty,
      averageResponseTime = 0, responseTimes = []\<rparr>"

text \<open>\<open>startDelete\<close> returns \<open>Date.now()\<close>.\<close>

definition startDelete :: "int \<Rightarrow> int" where
  "startDelete now = now"

text \<open>\<open>xs.slice(-100)\<close>: the last 100 elements, all of them when there are fewer.\<close>

definition slice_last_100 :: "'a list \<Rightarrow> 'a list" where
  "slice_last_100 xs = drop (length xs - 100) xs"

text \<open>\<open>recentTimes.reduce((sum, time) => sum + time, 0) / recentTimes.length\<close>\<close>

definition average :: "int list \<Rightarrow> rat" where
  "average recentTimes =
     of_int (foldl (\<lambda>sum time. sum + time) 0 recentTimes) / of_nat (length recentTimes)"

definition recordSuccess :: "int \<Rightarrow> int \<Rightarrow> stats \<Rightarrow> stats" where
  "recordSuccess now startTime s =
     (let responseTime = now - startTime;
          times = responseTimes s @ [responseTime];
          recentTimes = slice_last_100 times
      in s\<lparr>totalDeletes := totalDeletes s + 1,
           successfulDeletes := successfulDeletes s + 1,
           responseTimes := times,
           averageResponseTime := average recentTimes\<rparr>)"

text \<open>
  \<open>recordFailure\<close> classifies the error before it writes anything, so when the
  classification throws the statistics are as they were.
\<close>

definition recordFailure :: "int \<Rightarrow> int \<Rightarrow> js_error \<Rightarrow> stats \<Rightarrow> exception + stats" where
  "recordFailure now startTime error s =
     (let responseTime = now - startTime
      in case getErrorType error of
           Inl exn \<Rightarrow> Inl exn
         | Inr errorType \<Rightarrow>
             (let times = responseTimes s @ [responseTime];
                  recentTimes = slice_last_100 times
              in Inr (s\<lparr>totalDeletes := totalDeletes s + 1,
                        failedDeletes := failedDeletes s + 1,
                        responseTimes := times,
                        errorTypes := (errorTypes s)
                          (errorType \<mapsto>
                             (case errorTypes s errorType of None \<Rightarrow> 0 | Some n \<Rightarrow> n) + 1),
                        averageResponseTime := average recentTimes\<rparr>)))"

text \<open>Decimal digits of a natural number, as \<open>Number.prototype.toFixed\<close> writes them.\<close>

definition digit_char :: "nat \<Rightarrow> char" where
  "digit_char d = ''0123456789'' ! d"

fun nat_to_string :: "nat \<Rightarrow> string" where
  "nat_to_string n =
     (if n < 10 then [digit_char n] else nat_to_string (n div 10) @ [digit_char (n mod 10)])"

text \<open>
  \<open>x.toFixed(1)\<close> for \<open>|x| < 10^21\<close>: the integer \<open>n\<close> nearest to \<open>10 * |x|\<close>, the larger one
  of two, written with its last digit after the point, after a minus sign when \<open>x < 0\<close>.
\<close>

definition toFixed1 :: "rat \<Rightarrow> string" where
  "toFixed1 x =
     (let n = nat \<lfloor>\<bar>x\<bar> * 10 + 1 / 2\<rfloor>;
          m = nat_to_string (n div 10) @ ''.'' @ nat_to_string (n mod 10)
      in if x < 0 then ''-'' @ m else m)"

text \<open>The \<open>successRate\<close> of \<open>getStats\<close> is a string, or the number 0.\<close>

datatype success_rate = RateNumber int | RateString string

record stats_report = stats +
  successRate :: success_rate

definition getStats :: "stats \<Rightarrow> stats_report" where
  "getStats s =
     stats.extend s
       (stats_report.fields
          (if totalDeletes s > 0
           then RateString
                  (toFixed1 (of_nat (successfulDeletes s) / of_nat (totalDeletes s) * 100))
           else RateNumber 0))"

definition resetStats :: "stats \<Rightarrow> stats" where
  "resetStats s =
     \<lparr>totalDeletes = 0, successfulDeletes = 0, failedDeletes = 0, errorTypes = Map.empty,
      averageResponseTime = 0, responseTimes = []\<rparr>"

text \<open>
  Sequences of calls of \<open>recordSuccess\<close> and \<open>recordFailure\<close>; each carries its two clock
  readings. \<open>record_step\<close> is the state of the manager after a call, which is the state
  before it when the call throws; \<open>returns_normally\<close> tells the calls that do not throw.
\<close>

datatype record_op = RecordSuccess int int | RecordFailure int int js_error

fun record_step :: "record_op \<Rightarrow> stats \<Rightarrow> stats" where
  "record_step (RecordSuccess now startTime) s = recordSuccess now startTime s"
| "record_step (RecordFailure now startTime error) s =
     (case recordFailure now startTime error s of Inl exn \<Rightarrow> s | Inr s' \<Rightarrow> s')"

fun returns_normally :: "record_op \<Rightarrow> bool" where
  "returns_normally (RecordSuccess now startTime) = True"
| "returns_normally (RecordFailure now startTime error) =
     (case getErrorType error of Inl exn \<Rightarrow> False | Inr errorType \<Rightarrow> True)"

fun sample_of :: "record_op \<Rightarrow> int" where
  "sample_of (RecordSuccess now startTime) = now - startTime"
| "sample_of (RecordFailure now startTime error) = now - startTime"

definition run_records :: "record_op list \<Rightarrow> stats \<Rightarrow> stats" where
  "run_records ops s = fold record_step ops s"



section \<open>\<open>MemoryLeakDetector\<close>\<close>

text \<open>
  The timers of the JavaScript runtime: \<open>setInterval\<close> returns a fresh handle, which is
  positive, and the timer stays active until \<open>clearInterval\<close> is called with that handle.
\<close>

record runtime =
  next_handle :: nat
  intervals :: "(nat \<times> int) list"

definition new_runtime :: runtime where
  "new_runtime = \<lparr>next_handle = 1, intervals = []\<rparr>"

definition setInterval :: "int \<Rightarrow> runtime \<Rightarrow> nat \<times> runtime" where
  "setInterval interval rt =
     (next_handle rt,
      rt\<lparr>next_handle := Suc (next_handle rt),
         intervals := intervals rt @ [(next_handle rt, interval)]\<rparr>)"

definition clearInterval :: "nat \<Rightarrow> runtime \<Rightarrow> runtime" where
  "clearInterval h rt = rt\<lparr>intervals := filter (\<lambda>(h', i). h' \<noteq> h) (intervals rt)\<rparr>"

text \<open>
  \<open>Map.prototype.set\<close> on a map kept in insertion order: a present key keeps its place, a
  new key goes to the end.
\<close>

fun map_set :: "'k \<Rightarrow> 'v \<Rightarrow> ('k \<times> 'v) list \<Rightarrow> ('k \<times> 'v) list" where
  "map_set k v [] = [(k, v)]"
| "map_set k v ((k', v') # kvs) =
     (if k' = k then (k, v) # kvs else (k', v') # map_set k v kvs)"

fun map_get :: "('k \<times> 'v) list \<Rightarrow> 'k \<Rightarrow> 'v option" where
  "map_get [] k = None"
| "map_get ((k', v') # kvs) k = (if k' = k then Some v' else map_get kvs k)"

fun map_delete :: "'k \<Rightarrow> ('k \<times> 'v) list \<Rightarrow> ('k \<times> 'v) list" where
  "map_delete k [] = []"
| "map_delete k ((k', v') # kvs) = (if k' = k then kvs else (k', v') # map_delete k kvs)"

record reference =
  ref_type :: string
  createdAt :: int

text \<open>Objects are known by their identity \<open>'o\<close>; \<open>references\<close> is the WeakMap.\<close>

record 'o detector =
  references :: "'o \<rightharpoonup> reference"
  counters :: "(string \<times> int) list"
  checkInterval :: "nat option"

definition new_detector :: "'o detector" where
  "new_detector = \<lparr>references = Map.empty, counters = [], checkInterval = None\<rparr>"

text \<open>\<open>this.counters.get(type) || 0\<close>\<close>

definition currentCount :: "'o detector \<Rightarrow> string \<Rightarrow> int" where
  "currentCount d type = (case map_get (counters d) type of None \<Rightarrow> 0 | Some c \<Rightarrow> c)"

definition trackObject :: "'o \<Rightarrow> string \<Rightarrow> int \<Rightarrow> 'o detector \<Rightarrow> 'o detector" where
  "trackObject obj type now d =
     d\<lparr>references := (references d)(obj \<mapsto> \<lparr>ref_type = type, createdAt = now\<rparr>),
       counters := map_set type (currentCount d type + 1) (counters d)\<rparr>"

definition untrackObject :: "'o \<Rightarrow> 'o detector \<Rightarrow> 'o detector" where
  "untrackObject obj d =
     (case references d obj of
        Some ref \<Rightarrow>
          d\<lparr>counters :=
              map_set (ref_type ref) (max 0 (currentCount d (ref_type ref) - 1)) (counters d),
            references := (references d)(obj := None)\<rparr>
      | None \<Rightarrow> d)"

definition startLeakDetection ::
  "int \<Rightarrow> 'o detector \<times> runtime \<Rightarrow> 'o detector \<times> runtime"
where
  "startLeakDetection interval = (\<lambda>(d, rt).
     (let (h, rt') = setInterval interval rt in (d\<lparr>checkInterval := Some h\<rparr>, rt')))"

definition stopLeakDetection :: "'o detector \<times> runtime \<Rightarrow> 'o detector \<times> runtime" where
  "stopLeakDetection = (\<lambda>(d, rt).
     (case checkInterval d of
        Some h \<Rightarrow>
          (if h \<noteq> 0 then (d\<lparr>checkInterval := None\<rparr>, clearInterval h rt) else (d, rt))
      | None \<Rightarrow> (d, rt)))"

text \<open>\<open>checkForLeaks\<close> returns the warnings it writes, in the order of the counters.\<close>

definition checkForLeaks :: "'o detector \<Rightarrow> console_message list" where
  "checkForLeaks d =
     map (\<lambda>(type, count). LeakWarning type count)
       (filter (\<lambda>(type, count). count > 100) (counters d))"

definition getTrackingStatus :: "'o detector \<Rightarrow> (string \<times> int) list" where
  "getTrackingStatus d = counters d"

text \<open>Tracking the objects of a list, each with the clock reading of its call.\<close>

definition track_all :: "('o \<times> int) list \<Rightarrow> string \<Rightarrow> 'o detector \<Rightarrow> 'o detector" where
  "track_all objs type d = fold (\<lambda>(obj, now). trackObject obj type now) objs d"

text \<open>The timers that are active and that \<open>stopLeakDetection\<close> cannot reach any more.\<close>

definition active_timers :: "runtime \<Rightarrow> nat list" where
  "active_timers rt = map fst (intervals rt)"

section \<open>\<open>EventListenerManager\<close>\<close>

text \<open>
  An event target and a listener function, each with its identity and with the name the
  key is built from: \<open>target.constructor.name\<close> and \<open>listener.name\<close> (empty for an unnamed
  function).
\<close>

record event_target =
  target_identity :: nat
  constructor_name :: string

record listener_fn =
  listener_identity :: nat
  listener_name :: string

type_synonym listener_options = "(string \<times> bool) list"

record listener_info =
  info_target :: event_target
  info_type :: string
  info_listener :: listener_fn
  info_options :: listener_options

datatype dom_call =
    DomAdd event_target string listener_fn listener_options
  | DomRemove event_target string listener_fn

record listener_manager =
  listeners :: "(string \<times> listener_info) list"

definition new_listener_manager :: listener_manager where
  "new_listener_manager = \<lparr>listeners = []\<rparr>"

definition getListenerKey :: "event_target \<Rightarrow> string \<Rightarrow> listener_fn \<Rightarrow> string" where
  "getListenerKey target type listener =
     constructor_name target @ ''-'' @ type @ ''-'' @
       (if listener_name listener \<noteq> '''' then listener_name listener else ''anonymous'')"

definition addEventListener ::
  "event_target \<Rightarrow> string \<Rightarrow> listener_fn \<Rightarrow> listener_options \<Rightarrow> listener_manager
     \<Rightarrow> listener_manager \<times> dom_call list"
where
  "addEventListener target type listener options m =
     (let key = getListenerKey target type listener
      in if map_get (listeners m) key = None
         then (m\<lparr>listeners :=
                   map_set key
                     \<lparr>info_target = target, info_type = type, info_listener = listener,
                      info_options = options\<rparr> (listeners m)\<rparr>,
               [DomAdd target type listener options])
         else (m, []))"

definition removeEventListener ::
  "event_target \<Rightarrow> string \<Rightarrow> listener_fn \<Rightarrow> listener_manager
     \<Rightarrow> listener_manager \<times> dom_call list"
where
  "removeEventListener target type listener m =
     (let key = getListenerKey target type listener
      in case map_get (listeners m) key of
           Some listenerInfo \<Rightarrow>
             (m\<lparr>listeners := map_delete key (listeners m)\<rparr>, [DomRemove target type listener])
         | None \<Rightarrow> (m, []))"

definition removeAllListeners :: "listener_manager \<Rightarrow> listener_manager \<times> dom_call list" where
  "removeAllListeners m =
     (m\<lparr>listeners := []\<rparr>,
      map (\<lambda>(key, i). DomRemove (info_target i) (info_type i) (info_listener i)) (listeners m))"

definition getListenerCount :: "listener_manager \<Rightarrow> nat" where
  "getListenerCount m = length (listeners m)"

section \<open>The hook \<open>useEnhancedDelete\<close>\<close>

text \<open>
  The options of the hook. The delete operation is given by its answers, as for
  \<open>retryDelete\<close>; its result is read for its truthiness only. \<open>onSuccess\<close> and \<open>onError\<close> say
  whether the caller supplied the callback. Callbacks are taken not to throw.
\<close>

record delete_options =
  deleteFunction :: "string \<Rightarrow> nat \<Rightarrow> bool outcome"
  onSuccess :: bool
  onError :: bool
  enableOptimisticUpdates :: bool
  enableRetry :: bool
  opt_maxRetries :: int

text \<open>
  The state of the hook: its two React states and the managers it holds in refs, over the
  count of delete calls and the trace. An entry \<open>Some None\<close> of \<open>deleteErrors\<close> is a key
  whose value is \<open>null\<close>.
\<close>

record hook_state = io +
  deletingStates :: "string \<rightharpoonup> bool"
  deleteErrors :: "string \<rightharpoonup> error_info option"
  optimisticManager :: optimistic_manager
  statsManager :: stats

definition new_hook_state :: hook_state where
  "new_hook_state =
     \<lparr>calls = 0, trace = [], deletingStates = Map.empty, deleteErrors = Map.empty,
      optimisticManager = new_optimistic_manager, statsManager = new_stats\<rparr>"

definition emit :: "event list \<Rightarrow> 'a io_scheme \<Rightarrow> 'a io_scheme" where
  "emit es w = w\<lparr>trace := trace w @ es\<rparr>"

text \<open>\<open>await deleteFunction(projectId)\<close>, without the retry manager.\<close>

definition call_delete ::
  "(string \<Rightarrow> nat \<Rightarrow> 'r outcome) \<Rightarrow> string \<Rightarrow> 'a io_scheme \<Rightarrow> 'r outcome \<times> 'a io_scheme"
where
  "call_delete f projectId w =
     (f projectId (calls w),
      w\<lparr>calls := Suc (calls w), trace := trace w @ [DeleteCall projectId]\<rparr>)"

text \<open>The message of the error thrown on a falsy result, in UTF-8.\<close>

definition delete_failed_message :: string where
  "delete_failed_message =
     map char_of
       [229, 137, 138, 233, 153, 164, 229, 135, 166, 231, 144, 134, 227, 129, 140, 229, 164,
        177, 230, 149, 151, 227, 129, 151, 227, 129, 190, 227, 129, 151, 227, 129, 159 :: nat]"

definition operation_name :: "string \<Rightarrow> string" where
  "operation_name projectId = ''delete-project-'' @ projectId"

definition untrack_events :: "project option \<Rightarrow> event list" where
  "untrack_events projectData =
     (case projectData of Some d \<Rightarrow> [UntrackObject d] | None \<Rightarrow> [])"

text \<open>The branch of a truthy result.\<close>

definition success_path ::
  "delete_options \<Rightarrow> string \<Rightarrow> project option \<Rightarrow> int \<Rightarrow> int \<Rightarrow> hook_state \<Rightarrow> hook_state"
where
  "success_path opts projectId projectData startTime now h =
     emit ([EndOperation (operation_name projectId)] @ untrack_events projectData @
           (if onSuccess opts then [SuccessCall projectId projectData] else []))
       (h\<lparr>optimisticManager := confirmDelete projectId (optimisticManager h),
          statsManager := recordSuccess now startTime (statsManager h)\<rparr>)"

text \<open>
  The \<open>catch\<close> block. It returns \<open>false\<close>, unless the classification of the error throws:
  then the block ends there with the exception, after the console message and the rollback
  and before anything else is written.
\<close>

definition failure_path ::
  "delete_options \<Rightarrow> string \<Rightarrow> project option \<Rightarrow> int \<Rightarrow> int \<Rightarrow> js_error \<Rightarrow> hook_state
     \<Rightarrow> (exception + bool) \<times> hook_state"
where
  "failure_path opts projectId projectData startTime now error h =
     (let h1 = emit [Console (DeleteErrorLog error)] h;
          h2 = (if enableOptimisticUpdates opts
                then (let (m, es) = rollbackDelete projectId (optimisticManager h1)
                      in emit es (h1\<lparr>optimisticManager := m\<rparr>))
                else h1)
      in case handleDeleteError error
                (case projectData of Some d \<Rightarrow> title d | None \<Rightarrow> '''') of
           Inl exn \<Rightarrow> (Inl exn, h2)
         | Inr errorInfo \<Rightarrow>
             (let h3 = h2\<lparr>deleteErrors := (deleteErrors h2)(projectId \<mapsto> Some errorInfo)\<rparr>
              in case recordFailure now startTime error (statsManager h3) of
                   Inl exn \<Rightarrow> (Inl exn, h3)
                 | Inr s \<Rightarrow>
                     (Inr False,
                      emit ([EndOperation (operation_name projectId)] @
                            untrack_events projectData @
                            (if onError opts then [ErrorCall projectId error errorInfo]
                             else []))
                        (h3\<lparr>statsManager := s\<rparr>))))"

text \<open>
  \<open>executeDelete\<close>; \<open>t_start\<close> and \<open>t_end\<close> are the readings of \<open>Date.now()\<close> in \<open>startDelete\<close>
  and in \<open>recordSuccess\<close> or \<open>recordFailure\<close>. The result is \<open>Inr\<close> of the boolean the
  promise resolves to, or \<open>Inl\<close> of the exception it rejects with; the \<open>finally\<close> block runs
  in both cases.
\<close>

definition executeDelete ::
  "delete_options \<Rightarrow> string \<Rightarrow> project option \<Rightarrow> callback option \<Rightarrow> int \<Rightarrow> int \<Rightarrow> hook_state
     \<Rightarrow> (exception + bool) \<times> hook_state"
where
  "executeDelete opts projectId projectData updateStateCallback t_start t_end h =
     (let h1 = emit ([StartOperation (operation_name projectId)] @
                     (case projectData of
                        Some d \<Rightarrow> [TrackObject d ''DeleteProjectData'']
                      | None \<Rightarrow> [])) h;
          h2 = h1\<lparr>deletingStates := (deletingStates h1)(projectId \<mapsto> True),
                  deleteErrors := (deleteErrors h1)(projectId \<mapsto> None)\<rparr>;
          startTime = startDelete t_start;
          h3 = (case (enableOptimisticUpdates opts, projectData, updateStateCallback) of
                  (True, Some d, Some cb) \<Rightarrow>
                    (let (m, es) = optimisticDelete projectId d cb (optimisticManager h2)
                     in emit es (h2\<lparr>optimisticManager := m\<rparr>))
                | _ \<Rightarrow> h2);
          (result, h4) =
            (if enableRetry opts
             then retryDelete (new_retry_manager (opt_maxRetries opts) 1000)
                    (deleteFunction opts) projectId 0 h3
             else call_delete (deleteFunction opts) projectId h3);
          (returned, h5) =
            (case result of
               Resolve r \<Rightarrow>
                 (if r
                  then (Inr True, success_path opts projectId projectData startTime t_end h4)
                  else failure_path opts projectId projectData startTime t_end
                         (ErrorObject (Some delete_failed_message)) h4)
             | Reject error \<Rightarrow>
                 failure_path opts projectId projectData startTime t_end error h4)
      in (returned, h5\<lparr>deletingStates := (deletingStates h5)(projectId \<mapsto> False)\<rparr>))"

datatype 'a js_maybe = Undefined | Null | Value 'a

definition isDeleting :: "hook_state \<Rightarrow> string \<Rightarrow> bool" where
  "isDeleting h projectId = (case deletingStates h projectId of Some b \<Rightarrow> b | None \<Rightarrow> False)"

definition getDeleteError :: "hook_state \<Rightarrow> string \<Rightarrow> error_info js_maybe" where
  "getDeleteError h projectId =
     (case deleteErrors h projectId of
        None \<Rightarrow> Undefined
      | Some None \<Rightarrow> Null
      | Some (Some errorInfo) \<Rightarrow> Value errorInfo)"

definition clearDeleteError :: "string \<Rightarrow> hook_state \<Rightarrow> hook_state" where
  "clearDeleteError projectId h = h\<lparr>deleteErrors := (deleteErrors h)(projectId \<mapsto> None)\<rparr>"

definition clearAllDeleteErrors :: "hook_state \<Rightarrow> hook_state" where
  "clearAllDeleteErrors h = h\<lparr>deleteErrors := Map.empty\<rparr>"

definition getDeleteStats :: "hook_state \<Rightarrow> stats_report" where
  "getDeleteStats h = getStats (statsManager h)"

definition resetDeleteStats :: "hook_state \<Rightarrow> hook_state" where
  "resetDeleteStats h = h\<lparr>statsManager := resetStats (statsManager h)\<rparr>"

text \<open>
  The options a caller gets by default, for a given delete operation and with both
  callbacks supplied.
\<close>

definition default_options :: "(string \<Rightarrow> nat \<Rightarrow> bool outcome) \<Rightarrow> delete_options" where
  "default_options f =
     \<lparr>deleteFunction = f, onSuccess = True, onError = True, enableOptimisticUpdates = True,
      enableRetry = True, opt_maxRetries = 3\<rparr>"

section \<open>Predicates and runs of operations used in the statements\<close>

text \<open>
  The errors that the retry manager retries, and those at which it gives up: the errors
  that \<open>handleDeleteError\<close> classifies, with a guidance that is retryable or not.
\<close>

definition retryable_error :: "js_error \<Rightarrow> bool" where
  "retryable_error error =
     (case handleDeleteError error '''' of
        Inl exn \<Rightarrow> False
      | Inr errorInfo \<Rightarrow> retryable errorInfo)"

definition non_retryable_error :: "js_error \<Rightarrow> bool" where
  "non_retryable_error error =
     (case handleDeleteError error '''' of
        Inl exn \<Rightarrow> False
      | Inr errorInfo \<Rightarrow> \<not> retryable errorInfo)"

text \<open>The two maps of the manager have the same keys.\<close>

definition in_sync :: "optimistic_manager \<Rightarrow> bool" where
  "in_sync m = (dom (deletedProjects m) = dom (rollbackCallbacks m))"

text \<open>The successes and the errors of the failures in a sequence of recorded outcomes.\<close>

fun is_success :: "record_op \<Rightarrow> bool" where
  "is_success (RecordSuccess now startTime) = True"
| "is_success (RecordFailure now startTime error) = False"


text \<open>The calls of a sequence that record a sample: those that do not throw.\<close>

definition recorded :: "record_op list \<Rightarrow> record_op list" where
  "recorded ops = filter returns_normally ops"

text \<open>Sequences of tracking operations, run from a given detector.\<close>

datatype 'o detector_op = Track 'o string int | Untrack 'o

fun detector_step :: "'o detector_op \<Rightarrow> 'o detector \<Rightarrow> 'o detector" where
  "detector_step (Track obj type now) d = trackObject obj type now d"
| "detector_step (Untrack obj) d = untrackObject obj d"

definition run_detector :: "'o detector_op list \<Rightarrow> 'o detector \<Rightarrow> 'o detector" where
  "run_detector ops d = fold detector_step ops d"

text \<open>No counter is negative.\<close>

definition counters_nonneg :: "'o detector \<Rightarrow> bool" where
  "counters_nonneg d = list_all (\<lambda>(type, count). 0 \<le> count) (counters d)"

section \<open>Examples\<close>

text \<open>Errors, and delete operations given by their answers.\<close>

definition network_error :: js_error where
  "network_error = ErrorObject (Some ''network error'')"

definition permission_denied :: js_error where
  "permission_denied = ErrorObject (Some ''permission denied'')"

definition network_timeout :: js_error where
  "network_timeout = ErrorObject (Some ''network timeout'')"

definition always_ok :: "string \<Rightarrow> nat \<Rightarrow> bool outcome" where
  "always_ok projectId n = Resolve True"

definition always_rejects :: "js_error \<Rightarrow> string \<Rightarrow> nat \<Rightarrow> bool outcome" where
  "always_rejects error projectId n = Reject error"

definition rejects_then ::
  "js_error list \<Rightarrow> bool outcome \<Rightarrow> string \<Rightarrow> nat \<Rightarrow> bool outcome"
where
  "rejects_then errors final projectId n =
     (if n < length errors then Reject (errors ! n) else final)"

definition fails_three_times :: "string \<Rightarrow> nat \<Rightarrow> bool outcome" where
  "fails_three_times projectId n = (if n < 3 then Reject network_timeout else Resolve True)"

definition new_io :: io where
  "new_io = \<lparr>calls = 0, trace = []\<rparr>"

text \<open>Projects.\<close>

definition roof_repair :: project where
  "roof_repair = \<lparr>proj_id = ''p1'', title = ''Roof Repair'', created_at = None\<rparr>"


definition newer :: project where
  "newer = \<lparr>proj_id = ''p2'', title = ''Fence'', created_at = Some 300\<rparr>"

definition middle :: project where
  "middle = \<lparr>proj_id = ''p1'', title = ''Roof Repair'', created_at = Some 200\<rparr>"


definition one_slow_then_hundred :: "record_op list" where
  "one_slow_then_hundred =
     RecordFailure 1010 0 network_error # replicate 100 (RecordSuccess 7 7)"

definition three_samples :: "record_op list" where
  "three_samples = [RecordSuccess 100 0, RecordSuccess 450 250, RecordSuccess 1000 700]"

text \<open>101 objects, each with the clock reading of its tracking.\<close>

definition hundred_and_one :: "(nat \<times> int) list" where
  "hundred_and_one = map (\<lambda>i. (i, 5 * int i)) [0..<101]"

text \<open>A detector that is started while it is running.\<close>

definition started_twice :: "nat detector \<times> runtime" where
  "started_twice =
     startLeakDetection 1000 (startLeakDetection 1000 (new_detector, new_runtime))"

text \<open>Two windows and two unnamed listener functions.\<close>

definition window_a :: event_target where
  "window_a = \<lparr>target_identity = 1, constructor_name = ''Window''\<rparr>"

definition window_b :: event_target where
  "window_b = \<lparr>target_identity = 2, constructor_name = ''Window''\<rparr>"

definition first_arrow :: listener_fn where
  "first_arrow = \<lparr>listener_identity = 10, listener_name = ''''\<rparr>"

definition second_arrow :: listener_fn where
  "second_arrow = \<lparr>listener_identity = 11, listener_name = ''''\<rparr>"

text \<open>
  The run of the end-to-end scenario:
  \<open>executeDelete("p1", {id: "p1", title: "Roof Repair"}, cb)\<close> on a newly mounted hook with
  the default options, the delete operation rejecting with \<open>Error("network timeout")\<close>
  three times and then resolving \<open>true\<close>.
\<close>

definition scenario :: "callback \<Rightarrow> int \<Rightarrow> int \<Rightarrow> (exception + bool) \<times> hook_state" where
  "scenario cb t_start t_end =
     executeDelete (default_options fails_three_times) ''p1'' (Some roof_repair) (Some cb)
       t_start t_end new_hook_state"

section \<open>Properties of the classifier\<close>

lemma starts_with_iff: "starts_with s t \<longleftrightarrow> (\<exists>ss. s = t @ ss)"
  by (induction s t rule: starts_with.induct) auto

lemma includes_iff: "includes_str s t \<longleftrightarrow> occurs_in t s"
proof (induction s)
  case Nil
  show ?case by (auto simp: occurs_in_def)
next
  case (Cons c s)
  show ?case
  proof
    assume "includes_str (c # s) t"
    then consider "starts_with (c # s) t" | "includes_str s t" by auto
    then show "occurs_in t (c # s)"
    proof cases
      case 1
      then obtain ss where "c # s = t @ ss" by (auto simp: starts_with_iff)
      then have "c # s = [] @ t @ ss" by simp
      then show ?thesis unfolding occurs_in_def by blast
    next
      case 2
      then obtain ps ss where "s = ps @ t @ ss" using Cons by (auto simp: occurs_in_def)
      then have "c # s = (c # ps) @ t @ ss" by simp
      then show ?thesis unfolding occurs_in_def by blast
    qed
  next
    assume "occurs_in t (c # s)"
    then obtain ps ss where eq: "c # s = ps @ t @ ss" by (auto simp: occurs_in_def)
    show "includes_str (c # s) t"
    proof (cases ps)
      case Nil
      with eq have "starts_with (c # s) t" by (auto simp: starts_with_iff)
      then show ?thesis by simp
    next
      case (Cons p ps')
      with eq have "s = ps' @ t @ ss" by simp
      then have "occurs_in t s" unfolding occurs_in_def by blast
      with Cons.IH show ?thesis by simp
    qed
  qed
qed

lemma toLowerCase_empty: "toLowerCase [] = []"
  by simp

text \<open>
  C3. For an error that is null or undefined, or whose message is null, undefined or a
  string, the classifier lower-cases the message (the empty string when there is none) and
  returns the first match of the priority table: network tokens, then permission tokens,
  then not-found tokens, then timeout, then conflict tokens, else default; on these errors
  it always returns. On an error whose message is any other value it throws a TypeError.
  So a message with a network token and the timeout token is a network error, whatever its
  case and also when its \<open>k\<close> is a Kelvin sign, and one with a not-found token and a conflict
  token is a not-found error.
\<close>

theorem getErrorType_first_match:
  "getErrorType Nullish = Inr Default
   \<and> getErrorType (ErrorObject None) = Inr Default
   \<and> getErrorType (ErrorObject (Some m)) = Inr (first_match priority_table (toLowerCase m))
   \<and> getErrorType (ErrorObjectWith v) = Inl TypeError
   \<and> getErrorType (ErrorObject (Some ''Connection TIMEOUT'')) = Inr Network
   \<and> getErrorType (ErrorObject (Some (''NETWOR'' @ kelvin_sign @ '' timeout''))) = Inr Network
   \<and> getErrorType (ErrorObject (Some ''409 Conflict: row 404'')) = Inr NotFound
   \<and> getErrorType (ErrorObject (Some ''unknown error'')) = Inr Default"
proof -
  have "getErrorType Nullish = Inr Default"
    by (simp add: getErrorType_def to_lower_or_empty_def)
  moreover have "getErrorType (ErrorObject None) = Inr Default"
    by (simp add: getErrorType_def to_lower_or_empty_def)
  moreover have
    "getErrorType (ErrorObject (Some m)) = Inr (first_match priority_table (toLowerCase m))"
    by (simp add: getErrorType_def to_lower_or_empty_def priority_table_def includes_iff)
  moreover have "getErrorType (ErrorObjectWith v) = Inl TypeError"
    by (simp add: getErrorType_def to_lower_or_empty_def)
  moreover have "getErrorType (ErrorObject (Some ''Connection TIMEOUT'')) = Inr Network"
    by code_simp
  moreover have
    "getErrorType (ErrorObject (Some (''NETWOR'' @ kelvin_sign @ '' timeout''))) = Inr Network"
    by code_simp
  moreover have "getErrorType (ErrorObject (Some ''409 Conflict: row 404'')) = Inr NotFound"
    by code_simp
  moreover have "getErrorType (ErrorObject (Some ''unknown error'')) = Inr Default"
    by code_simp
  ultimately show ?thesis by simp
qed

text \<open>The classifier throws on the error \<open>{message: 404}\<close>.\<close>

theorem getErrorType_throws:
  "getErrorType (ErrorObjectWith (NumberValue 404)) = Inl TypeError"
  by (simp add: getErrorType_def to_lower_or_empty_def)

section \<open>Properties of \<open>retryDelete\<close>\<close>

declare retryDelete.simps [simp del]

lemma retryDelete_resolve:
  "f p (calls w) = Resolve r \<Longrightarrow>
   retryDelete m f p a w =
     (Resolve r, w\<lparr>calls := Suc (calls w), trace := trace w @ [DeleteCall p]\<rparr>)"
  by (subst retryDelete.simps) simp

lemma retryDelete_give_up:
  "f p (calls w) = Reject e \<Longrightarrow> handleDeleteError e '''' = Inr i \<Longrightarrow>
   \<not> (retryable i \<and> int a < maxRetries m) \<Longrightarrow>
   retryDelete m f p a w =
     (Reject e, w\<lparr>calls := Suc (calls w), trace := trace w @ [DeleteCall p]\<rparr>)"
  by (subst retryDelete.simps) auto

lemma retryDelete_retry:
  "f p (calls w) = Reject e \<Longrightarrow> retryable_error e \<Longrightarrow>
   int a < maxRetries m \<Longrightarrow>
   retryDelete m f p a w =
     retryDelete m f p (Suc a)
       (w\<lparr>calls := Suc (calls w),
          trace := trace w @
            [DeleteCall p,
             Console (RetryWarning (Suc a) (maxRetries m) (baseDelay m * 2 ^ a) e),
             Wait (baseDelay m * 2 ^ a)]\<rparr>)"
  by (subst retryDelete.simps) (auto simp: retryable_error_def split: sum.splits)

lemma retryDelete_skip:
  "\<forall>k<n. \<exists>e. f p (calls w + k) = Reject e \<and> retryable_error e \<Longrightarrow>
   int (a + n) \<le> maxRetries m \<Longrightarrow>
   \<exists>w'. retryDelete m f p a w = retryDelete m f p (a + n) w' \<and> calls w' = calls w + n"
proof (induction n arbitrary: a w)
  case 0
  show ?case by (intro exI[of _ w]) simp
next
  case (Suc n)
  from Suc.prems(1) obtain e where e: "f p (calls w) = Reject e"
    "retryable_error e" by force
  let ?w1 = "w\<lparr>calls := Suc (calls w),
          trace := trace w @
            [DeleteCall p,
             Console (RetryWarning (Suc a) (maxRetries m) (baseDelay m * 2 ^ a) e),
             Wait (baseDelay m * 2 ^ a)]\<rparr>"
  have step: "retryDelete m f p a w = retryDelete m f p (Suc a) ?w1"
    using e Suc.prems(2) by (intro retryDelete_retry) auto
  have "\<forall>k<n. \<exists>e. f p (calls ?w1 + k) = Reject e \<and> retryable_error e"
    using Suc.prems(1) by (auto dest: spec[of _ "Suc _"])
  moreover have "int (Suc a + n) \<le> maxRetries m" using Suc.prems(2) by simp
  ultimately obtain w' where
    "retryDelete m f p (Suc a) ?w1 = retryDelete m f p (Suc a + n) w'"
    "calls w' = calls ?w1 + n"
    using Suc.IH[of ?w1 "Suc a"] by blast
  with step show ?case by (intro exI[of _ w']) simp
qed

lemma handleDeleteError_classified:
  "getErrorType e = Inr c \<Longrightarrow> handleDeleteError e t = Inr (errorMappings t c)"
  by (simp add: handleDeleteError_def)

lemma network_retryable: "getErrorType e = Inr Network \<Longrightarrow> retryable_error e"
  by (simp add: retryable_error_def handleDeleteError_def)

lemma non_retryable_errorD:
  "non_retryable_error e \<Longrightarrow> \<exists>i. handleDeleteError e '''' = Inr i \<and> \<not> retryable i"
  by (auto simp: non_retryable_error_def split: sum.splits)

lemma getErrorType_network_error: "getErrorType network_error = Inr Network"
  by code_simp

lemma getErrorType_permission_denied: "getErrorType permission_denied = Inr Permission"
  by code_simp

text \<open>
  C2. Wrapped by the retry manager and started at attempt 0: a delete operation whose call
  resolves is called once, whatever the configuration, and its result is returned; one that
  always rejects with a network error is called \<open>1 + maxRetries\<close> times and the last
  rejection is returned as it is; one that rejects with a permission error is called once;
  one that fails twice with retryable errors and then resolves is called three times and
  its result is returned, when two retries are allowed (three are by default); and a
  retryable error followed by one that is not retryable ends the retries at the second call.
\<close>

theorem retryDelete_policy:
  "(f p (calls w) = Resolve r \<longrightarrow>
      fst (retryDelete m f p 0 w) = Resolve r
      \<and> calls (snd (retryDelete m f p 0 w)) = calls w + 1)
   \<and> ((\<forall>n. \<exists>e. f p n = Reject e \<and> getErrorType e = Inr Network) \<and> 0 \<le> maxRetries m \<longrightarrow>
      fst (retryDelete m f p 0 w) = f p (calls w + nat (maxRetries m))
      \<and> calls (snd (retryDelete m f p 0 w)) = calls w + (1 + nat (maxRetries m)))
   \<and> (f p (calls w) = Reject e \<and> getErrorType e = Inr Permission \<longrightarrow>
      fst (retryDelete m f p 0 w) = Reject e
      \<and> calls (snd (retryDelete m f p 0 w)) = calls w + 1)
   \<and> (f p (calls w) = Reject e1 \<and> retryable_error e1
      \<and> f p (calls w + 1) = Reject e2 \<and> retryable_error e2
      \<and> f p (calls w + 2) = Resolve r \<and> 2 \<le> maxRetries m \<longrightarrow>
      fst (retryDelete m f p 0 w) = Resolve r
      \<and> calls (snd (retryDelete m f p 0 w)) = calls w + 3)
   \<and> (f p (calls w) = Reject e1 \<and> retryable_error e1
      \<and> f p (calls w + 1) = Reject e2 \<and> non_retryable_error e2
      \<and> 1 \<le> maxRetries m \<longrightarrow>
      fst (retryDelete m f p 0 w) = Reject e2
      \<and> calls (snd (retryDelete m f p 0 w)) = calls w + 2)"
proof -
  have a: "fst (retryDelete m f p 0 w) = Resolve r
      \<and> calls (snd (retryDelete m f p 0 w)) = calls w + 1"
    if "f p (calls w) = Resolve r"
    using that by (simp add: retryDelete_resolve)
  have b: "fst (retryDelete m f p 0 w) = f p (calls w + nat (maxRetries m))
      \<and> calls (snd (retryDelete m f p 0 w)) = calls w + (1 + nat (maxRetries m))"
    if net: "\<forall>n. \<exists>e. f p n = Reject e \<and> getErrorType e = Inr Network" and "0 \<le> maxRetries m"
  proof -
    let ?n = "nat (maxRetries m)"
    have "\<forall>k<?n. \<exists>e. f p (calls w + k) = Reject e \<and> retryable_error e"
      using net network_retryable by blast
    moreover have "int (0 + ?n) \<le> maxRetries m" using that(2) by simp
    ultimately obtain w' where w': "retryDelete m f p 0 w = retryDelete m f p (0 + ?n) w'"
      "calls w' = calls w + ?n"
      using retryDelete_skip[of ?n f p w 0 m] by blast
    from net obtain e where e: "f p (calls w') = Reject e" "getErrorType e = Inr Network"
      by blast
    note h = handleDeleteError_classified[OF e(2), of "''''"]
    have "\<not> (retryable (errorMappings '''' Network) \<and> int (0 + ?n) < maxRetries m)"
      using that(2) by simp
    from retryDelete_give_up[where f = f and p = p and w = w' and a = "0 + ?n" and m = m,
        OF e(1) h this]
      w' e show ?thesis by simp
  qed
  have c: "fst (retryDelete m f p 0 w) = Reject e
      \<and> calls (snd (retryDelete m f p 0 w)) = calls w + 1"
    if "f p (calls w) = Reject e" "getErrorType e = Inr Permission"
  proof -
    note h = handleDeleteError_classified[OF that(2), of "''''"]
    have "\<not> (retryable (errorMappings '''' Permission) \<and> int 0 < maxRetries m)" by simp
    from retryDelete_give_up[where f = f and p = p and w = w and a = 0 and m = m,
        OF that(1) h this]
    show ?thesis by simp
  qed
  have d: "fst (retryDelete m f p 0 w) = Resolve r
      \<and> calls (snd (retryDelete m f p 0 w)) = calls w + 3"
    if "f p (calls w) = Reject e1" "retryable_error e1"
       "f p (calls w + 1) = Reject e2" "retryable_error e2"
       "f p (calls w + 2) = Resolve r" "2 \<le> maxRetries m"
  proof -
    have "\<forall>k<2. \<exists>e. f p (calls w + k) = Reject e \<and> retryable_error e"
      using that(1-4) by (auto simp: less_Suc_eq numeral_2_eq_2)
    moreover have "int (0 + 2) \<le> maxRetries m" using that(6) by simp
    ultimately obtain w' where w': "retryDelete m f p 0 w = retryDelete m f p (0 + 2) w'"
      "calls w' = calls w + 2"
      using retryDelete_skip[of 2 f p w 0 m] by blast
    from that(5) w'(2) have "f p (calls w') = Resolve r" by simp
    from retryDelete_resolve[where f = f and p = p and w = w' and a = "0 + 2" and m = m, OF this]
      w' show ?thesis by simp
  qed
  have e: "fst (retryDelete m f p 0 w) = Reject e2
      \<and> calls (snd (retryDelete m f p 0 w)) = calls w + 2"
    if "f p (calls w) = Reject e1" "retryable_error e1"
       "f p (calls w + 1) = Reject e2" "non_retryable_error e2"
       "1 \<le> maxRetries m"
  proof -
    have "\<forall>k<1. \<exists>e. f p (calls w + k) = Reject e \<and> retryable_error e"
      using that(1,2) by auto
    moreover have "int (0 + 1) \<le> maxRetries m" using that(5) by simp
    ultimately obtain w' where w': "retryDelete m f p 0 w = retryDelete m f p (0 + 1) w'"
      "calls w' = calls w + 1"
      using retryDelete_skip[of 1 f p w 0 m] by blast
    from that(3) w'(2) have r: "f p (calls w') = Reject e2" by simp
    from non_retryable_errorD[OF that(4)] obtain i where
      i: "handleDeleteError e2 '''' = Inr i" "\<not> retryable i" by blast
    have "\<not> (retryable i \<and> int (0 + 1) < maxRetries m)"
      using i(2) by simp
    from retryDelete_give_up[where f = f and p = p and w = w' and a = "0 + 1" and m = m,
        OF r i(1) this]
      w' show ?thesis by simp
  qed
  from a b c d e show ?thesis by blast
qed

theorem retryDelete_policy_witness:
  "calls (snd (retryDelete (new_retry_manager 3 100) always_ok ''test-1'' 0 new_io)) = 1
   \<and> fst (retryDelete (new_retry_manager 3 100) (always_rejects network_error) ''test-1'' 0 new_io)
       = Reject network_error
   \<and> calls (snd (retryDelete (new_retry_manager 3 100) (always_rejects network_error) ''test-1'' 0
         new_io)) = 4
   \<and> calls (snd (retryDelete (new_retry_manager 3 100) (always_rejects permission_denied)
         ''test-1'' 0 new_io)) = 1
   \<and> fst (retryDelete (new_retry_manager 3 100)
         (rejects_then [network_error, network_error] (Resolve True)) ''test-1'' 0 new_io)
       = Resolve True
   \<and> calls (snd (retryDelete (new_retry_manager 3 100)
         (rejects_then [network_error, network_error] (Resolve True)) ''test-1'' 0 new_io)) = 3
   \<and> fst (retryDelete (new_retry_manager 3 100)
         (rejects_then [network_error] (Reject permission_denied)) ''test-1'' 0 new_io)
       = Reject permission_denied
   \<and> calls (snd (retryDelete (new_retry_manager 3 100)
         (rejects_then [network_error] (Reject permission_denied)) ''test-1'' 0 new_io)) = 2"
proof -
  let ?m = "new_retry_manager 3 100"
  have m: "maxRetries ?m = 3" by (simp add: new_retry_manager_def)
  have c0: "calls new_io = 0" by (simp add: new_io_def)
  have rn: "retryable_error network_error"
    by (simp add: network_retryable getErrorType_network_error)
  have rp: "non_retryable_error permission_denied"
    by (simp add: non_retryable_error_def handleDeleteError_def getErrorType_permission_denied)
  have a: "calls (snd (retryDelete ?m always_ok ''test-1'' 0 new_io)) = 1"
    using retryDelete_policy[where m = ?m and f = always_ok and p = "''test-1''" and w = new_io
        and r = True]
    by (simp add: always_ok_def c0)
  have b: "fst (retryDelete ?m (always_rejects network_error) ''test-1'' 0 new_io)
             = Reject network_error
           \<and> calls (snd (retryDelete ?m (always_rejects network_error) ''test-1'' 0 new_io)) = 4"
    using retryDelete_policy[where m = ?m and f = "always_rejects network_error"
        and p = "''test-1''" and w = new_io]
    by (simp add: always_rejects_def c0 m getErrorType_network_error)
  have c: "calls (snd (retryDelete ?m (always_rejects permission_denied) ''test-1'' 0 new_io)) = 1"
    using retryDelete_policy[where m = ?m and f = "always_rejects permission_denied"
        and p = "''test-1''" and w = new_io and e = permission_denied]
    by (simp add: always_rejects_def c0 getErrorType_permission_denied)
  have d: "fst (retryDelete ?m (rejects_then [network_error, network_error] (Resolve True))
             ''test-1'' 0 new_io) = Resolve True
           \<and> calls (snd (retryDelete ?m (rejects_then [network_error, network_error] (Resolve True))
             ''test-1'' 0 new_io)) = 3"
    using retryDelete_policy[where m = ?m
        and f = "rejects_then [network_error, network_error] (Resolve True)"
        and p = "''test-1''" and w = new_io and ?e1.0 = network_error and ?e2.0 = network_error
        and r = True]
    by (simp add: rejects_then_def c0 m rn)
  have e: "fst (retryDelete ?m (rejects_then [network_error] (Reject permission_denied))
             ''test-1'' 0 new_io) = Reject permission_denied
           \<and> calls (snd (retryDelete ?m (rejects_then [network_error] (Reject permission_denied))
             ''test-1'' 0 new_io)) = 2"
    using retryDelete_policy[where m = ?m
        and f = "rejects_then [network_error] (Reject permission_denied)"
        and p = "''test-1''" and w = new_io and ?e1.0 = network_error
        and ?e2.0 = permission_denied]
    by (simp add: rejects_then_def c0 m rn rp)
  from a b c d e show ?thesis by simp
qed

section \<open>Properties of \<open>OptimisticDeleteManager\<close>\<close>









lemma in_sync_new: "in_sync new_optimistic_manager"
  by (simp add: in_sync_def new_optimistic_manager_def)

lemma in_sync_step: "in_sync m \<Longrightarrow> in_sync (manager_step op m)"
  by (cases op)
     (auto simp: in_sync_def optimisticDelete_def confirmDelete_def rollbackDelete_def
        clearAll_def split: option.splits)

lemma in_sync_fold: "in_sync m \<Longrightarrow> in_sync (fold manager_step ops m)"
  by (induction ops arbitrary: m) (auto simp: in_sync_step)

lemma in_sync_run: "in_sync m \<Longrightarrow> in_sync (run_manager ops m)"
  by (simp add: run_manager_def in_sync_fold)

text \<open>
  C5. The snapshot map and the callback map of the manager have the same keys after every
  sequence of operations of a new manager, and each operation keeps them so. After
  \<open>optimisticDelete\<close> the id is pending, and it stays so through every operation other than
  its own \<open>confirmDelete\<close> or \<open>rollbackDelete\<close> and \<open>clearAll\<close>. On an id that is not pending
  \<open>confirmDelete\<close> and \<open>rollbackDelete\<close> leave the manager as it is, and a second
  \<open>confirmDelete\<close> or \<open>rollbackDelete\<close> of the same id changes nothing more.
\<close>

theorem manager_maps_in_sync:
  "in_sync (run_manager ops new_optimistic_manager)
   \<and> (in_sync m \<longrightarrow> in_sync (manager_step op m))
   \<and> pending (fst (optimisticDelete pid d cb m)) pid
   \<and> (pending m pid \<and> op \<noteq> ConfirmDelete pid \<and> op \<noteq> RollbackDelete pid \<and> op \<noteq> ClearAll \<longrightarrow>
        pending (manager_step op m) pid)
   \<and> (in_sync m \<and> \<not> pending m pid \<longrightarrow> confirmDelete pid m = m)
   \<and> (\<not> pending m pid \<longrightarrow> rollbackDelete pid m = (m, []))
   \<and> confirmDelete pid (confirmDelete pid m) = confirmDelete pid m
   \<and> rollbackDelete pid (fst (rollbackDelete pid m)) = (fst (rollbackDelete pid m), [])"
proof -
  have reach: "in_sync (run_manager ops new_optimistic_manager)"
    by (simp add: in_sync_run in_sync_new)
  have pend: "pending (fst (optimisticDelete pid d cb m)) pid"
    by (simp add: pending_def optimisticDelete_def)
  have stays: "pending (manager_step op m) pid"
    if "pending m pid" "op \<noteq> ConfirmDelete pid" "op \<noteq> RollbackDelete pid" "op \<noteq> ClearAll"
    using that
    by (cases op)
       (auto simp: pending_def optimisticDelete_def confirmDelete_def rollbackDelete_def
          split: option.splits)
  have confirm: "confirmDelete pid m = m" if "in_sync m" "\<not> pending m pid"
  proof -
    from that(1) have "pid \<in> dom (deletedProjects m) \<longleftrightarrow> pid \<in> dom (rollbackCallbacks m)"
      by (simp add: in_sync_def)
    with that(2) have "deletedProjects m pid = None \<and> rollbackCallbacks m pid = None"
      by (auto simp: pending_def domIff)
    then show ?thesis by (simp add: confirmDelete_def fun_upd_idem)
  qed
  have rollback: "rollbackDelete pid m = (m, [])" if "\<not> pending m pid"
    using that by (auto simp: pending_def rollbackDelete_def split: option.splits)
  have idem1: "confirmDelete pid (confirmDelete pid m) = confirmDelete pid m"
    by (simp add: confirmDelete_def)
  have idem2: "rollbackDelete pid (fst (rollbackDelete pid m)) = (fst (rollbackDelete pid m), [])"
    by (auto simp: rollbackDelete_def split: option.splits)
  from reach in_sync_step pend stays confirm rollback idem1 idem2 show ?thesis by blast
qed

theorem manager_maps_in_sync_witness:
  "in_sync (manager_step (OptimisticDelete ''p1'' middle 7) new_optimistic_manager)
   \<and> pending
       (manager_step (OptimisticDelete ''p2'' newer 8)
          (fst (optimisticDelete ''p1'' middle 7 new_optimistic_manager))) ''p1''
   \<and> confirmDelete ''p1'' new_optimistic_manager = new_optimistic_manager
   \<and> rollbackDelete ''p1'' new_optimistic_manager = (new_optimistic_manager, [])"
proof -
  have np: "\<not> pending new_optimistic_manager ''p1''"
    by (simp add: pending_def new_optimistic_manager_def)
  note t = manager_maps_in_sync[where m = new_optimistic_manager and pid = "''p1''"
      and op = "OptimisticDelete ''p1'' middle 7"]
  from t in_sync_new np
  have a: "in_sync (manager_step (OptimisticDelete ''p1'' middle 7) new_optimistic_manager)
    \<and> confirmDelete ''p1'' new_optimistic_manager = new_optimistic_manager
    \<and> rollbackDelete ''p1'' new_optimistic_manager = (new_optimistic_manager, [])"
    by blast
  have p: "pending (fst (optimisticDelete ''p1'' middle 7 new_optimistic_manager)) ''p1''"
    by (simp add: pending_def optimisticDelete_def)
  note u = manager_maps_in_sync[where
      m = "fst (optimisticDelete ''p1'' middle 7 new_optimistic_manager)" and pid = "''p1''"
      and op = "OptimisticDelete ''p2'' newer 8"]
  from u p
  have b: "pending
       (manager_step (OptimisticDelete ''p2'' newer 8)
          (fst (optimisticDelete ''p1'' middle 7 new_optimistic_manager))) ''p1''"
    by simp
  from a b show ?thesis by simp
qed

section \<open>Properties of \<open>DeleteStatsManager\<close>\<close>

lemma getStats_fields:
  "totalDeletes (getStats s) = totalDeletes s"
  "successfulDeletes (getStats s) = successfulDeletes s"
  "failedDeletes (getStats s) = failedDeletes s"
  "errorTypes (getStats s) = errorTypes s"
  "averageResponseTime (getStats s) = averageResponseTime s"
  "responseTimes (getStats s) = responseTimes s"
  by (simp_all add: getStats_def stats.defs stats_report.defs)


lemma record_step_throws: "\<not> returns_normally op \<Longrightarrow> record_step op s = s"
  by (cases op) (auto simp: recordFailure_def Let_def split: sum.splits)

lemma record_step_counts:
  assumes "returns_normally op"
  shows "totalDeletes (record_step op s) = Suc (totalDeletes s)"
    and "successfulDeletes (record_step op s)
           = successfulDeletes s + (if is_success op then 1 else 0)"
    and "failedDeletes (record_step op s) = failedDeletes s + (if is_success op then 0 else 1)"
    and "responseTimes (record_step op s) = responseTimes s @ [sample_of op]"
  using assms
  by (cases op; simp add: recordSuccess_def recordFailure_def Let_def split: sum.splits)+





lemma fold_responseTimes:
  "list_all returns_normally ops \<Longrightarrow>
   responseTimes (fold record_step ops s) = responseTimes s @ map sample_of ops"
  by (induction ops arbitrary: s) (simp_all add: record_step_counts)

text \<open>The calls that throw leave no trace in the statistics.\<close>

lemma fold_recorded: "fold record_step ops s = fold record_step (recorded ops) s"
  unfolding recorded_def
  by (induction ops arbitrary: s) (simp_all add: record_step_throws)

lemma list_all_recorded: "list_all returns_normally (recorded ops)"
  by (simp add: recorded_def list_all_iff)

lemma recorded_all: "list_all returns_normally ops \<Longrightarrow> recorded ops = ops"
  by (simp add: recorded_def list_all_iff)









declare nat_to_string.simps [simp del]





lemma resetStats_new: "resetStats s = new_stats"
  by (simp add: resetStats_def new_stats_def)



lemma foldl_plus_sum_list: "foldl (\<lambda>sum time. sum + time) a xs = a + sum_list (xs :: int list)"
  by (induction xs arbitrary: a) simp_all

lemma average_mean: "average xs = of_int (sum_list xs) / of_nat (length xs)"
  by (simp add: average_def foldl_plus_sum_list)

lemma averageResponseTime_record_step:
  "returns_normally op \<Longrightarrow>
   averageResponseTime (record_step op s)
     = average (slice_last_100 (responseTimes s @ [sample_of op]))"
  by (cases op) (simp_all add: recordSuccess_def recordFailure_def Let_def split: sum.splits)

lemma averageResponseTime_run:
  assumes "ops \<noteq> []" and "list_all returns_normally ops"
  shows "averageResponseTime (fold record_step ops s)
     = average (slice_last_100 (responseTimes s @ map sample_of ops))"
proof -
  from assms(1) obtain ops' op where ops: "ops = ops' @ [op]"
    by (metis append_butlast_last_id)
  with assms(2) have "list_all returns_normally ops'" "returns_normally op" by simp_all
  then show ?thesis
    by (simp add: ops averageResponseTime_record_step fold_responseTimes)
qed

text \<open>
  C7. After every sequence of \<open>recordSuccess\<close> and \<open>recordFailure\<close> calls on a new manager that
  has recorded a sample, the reported average response time is the arithmetic mean of the
  last 100 samples recorded, of all of them when there are fewer, successes and failures
  alike. Every call records its sample, but for a \<open>recordFailure\<close> that throws on its error:
  when no call throws, the samples are those of all the calls.
\<close>

theorem average_over_last_hundred:
  "(recorded ops \<noteq> [] \<longrightarrow>
      averageResponseTime (getStats (run_records ops new_stats))
        = of_int (sum_list (drop (length (recorded ops) - 100) (map sample_of (recorded ops))))
            / of_nat (min 100 (length (recorded ops)))
      \<and> responseTimes (getStats (run_records ops new_stats)) = map sample_of (recorded ops))
   \<and> (list_all returns_normally ops \<longrightarrow> recorded ops = ops)"
proof -
  have main: "averageResponseTime (getStats (run_records ops new_stats))
        = of_int (sum_list (drop (length (recorded ops) - 100) (map sample_of (recorded ops))))
            / of_nat (min 100 (length (recorded ops)))
      \<and> responseTimes (getStats (run_records ops new_stats)) = map sample_of (recorded ops)"
    if ne: "recorded ops \<noteq> []"
  proof -
    let ?rs = "recorded ops"
    let ?recent = "drop (length ?rs - 100) (map sample_of ?rs)"
    have run: "run_records ops new_stats = fold record_step ?rs new_stats"
      unfolding run_records_def by (rule fold_recorded)
    have "responseTimes new_stats = []"
      by (simp add: new_stats_def)
    with averageResponseTime_run[OF ne list_all_recorded, of new_stats]
    have "averageResponseTime (run_records ops new_stats)
            = average (slice_last_100 (map sample_of ?rs))"
      unfolding run by simp
    also have "slice_last_100 (map sample_of ?rs) = ?recent"
      by (simp add: slice_last_100_def)
    also have "average ?recent = of_int (sum_list ?recent) / of_nat (length ?recent)"
      by (rule average_mean)
    also have "length ?recent = min 100 (length ?rs)"
      by simp
    finally have avg: "averageResponseTime (run_records ops new_stats)
        = of_int (sum_list ?recent) / of_nat (min 100 (length ?rs))" .
    have "responseTimes (run_records ops new_stats) = map sample_of ?rs"
      unfolding run by (simp add: fold_responseTimes[OF list_all_recorded] new_stats_def)
    with avg show ?thesis
      by (simp add: getStats_fields)
  qed
  from main recorded_all show ?thesis by blast
qed

theorem average_over_last_hundred_witness:
  "averageResponseTime (getStats (run_records three_samples new_stats)) = 200
   \<and> averageResponseTime (getStats (run_records one_slow_then_hundred new_stats)) = 0
   \<and> responseTimes (getStats (run_records one_slow_then_hundred new_stats))
       = 1010 # replicate 100 0
   \<and> recorded one_slow_then_hundred = one_slow_then_hundred"
proof -
  have r3: "recorded three_samples = three_samples"
    by (simp add: recorded_def three_samples_def)
  have "recorded three_samples \<noteq> []"
    by (simp add: r3) (simp add: three_samples_def)
  with average_over_last_hundred[where ops = three_samples]
  have a: "averageResponseTime (getStats (run_records three_samples new_stats)) = 200"
    by (simp add: r3) (simp add: three_samples_def)
  have all: "list_all returns_normally one_slow_then_hundred"
    by (simp add: one_slow_then_hundred_def getErrorType_network_error list_all_iff)
  with average_over_last_hundred[where ops = one_slow_then_hundred]
  have r: "recorded one_slow_then_hundred = one_slow_then_hundred" by blast
  have "recorded one_slow_then_hundred \<noteq> []"
    by (simp add: r) (simp add: one_slow_then_hundred_def)
  with average_over_last_hundred[where ops = one_slow_then_hundred]
  have b: "averageResponseTime (getStats (run_records one_slow_then_hundred new_stats)) = 0
    \<and> responseTimes (getStats (run_records one_slow_then_hundred new_stats))
       = 1010 # replicate 100 0"
    by (simp add: r) (simp add: one_slow_then_hundred_def sum_list_replicate)
  from a b r show ?thesis by simp
qed

section \<open>Properties of \<open>MemoryLeakDetector\<close>\<close>

lemma map_get_map_set:
  "map_get (map_set k v kvs) k' = (if k' = k then Some v else map_get kvs k')"
  by (induction kvs) auto

lemma map_set_map_set: "map_set k v (map_set k v' kvs) = map_set k v kvs"
  by (induction kvs) auto

lemma list_all_map_set:
  "list_all P kvs \<Longrightarrow> P (k, v) \<Longrightarrow> list_all P (map_set k v kvs)"
  by (induction kvs) auto

lemma map_get_list_all:
  "list_all P kvs \<Longrightarrow> map_get kvs k = Some v \<Longrightarrow> P (k, v)"
  by (induction kvs) (auto split: if_splits)

lemma counters_trackObject:
  "counters (trackObject obj type now d) = map_set type (currentCount d type + 1) (counters d)"
  by (simp add: trackObject_def)

lemma currentCount_trackObject:
  "currentCount (trackObject obj type now d) type' =
     (if type' = type then currentCount d type + 1 else currentCount d type')"
  by (simp add: currentCount_def[of "trackObject obj type now d"] counters_trackObject
      map_get_map_set) (simp add: currentCount_def)

lemma currentCount_nonneg: "counters_nonneg d \<Longrightarrow> 0 \<le> currentCount d type"
  by (auto simp: counters_nonneg_def currentCount_def split: option.splits
      dest: map_get_list_all)

lemma counters_nonneg_new: "counters_nonneg new_detector"
  by (simp add: counters_nonneg_def new_detector_def)

lemma counters_nonneg_trackObject:
  "counters_nonneg d \<Longrightarrow> counters_nonneg (trackObject obj type now d)"
  using currentCount_nonneg[of d type]
  by (simp add: counters_nonneg_def counters_trackObject list_all_map_set)

lemma counters_nonneg_untrackObject:
  "counters_nonneg d \<Longrightarrow> counters_nonneg (untrackObject obj d)"
  by (cases "references d obj")
     (simp_all add: untrackObject_def counters_nonneg_def list_all_map_set)

lemma counters_nonneg_step: "counters_nonneg d \<Longrightarrow> counters_nonneg (detector_step op d)"
  by (cases op) (simp_all add: counters_nonneg_trackObject counters_nonneg_untrackObject)

lemma counters_nonneg_run: "counters_nonneg d \<Longrightarrow> counters_nonneg (run_detector ops d)"
  unfolding run_detector_def
  by (induction ops arbitrary: d) (simp_all add: counters_nonneg_step)

lemma counters_track_all:
  "objs \<noteq> [] \<Longrightarrow>
   counters (track_all objs type d)
     = map_set type (currentCount d type + int (length objs)) (counters d)"
proof (induction objs arbitrary: d)
  case Nil
  then show ?case by simp
next
  case (Cons x objs)
  obtain obj now where x: "x = (obj, now)" by (cases x)
  show ?case
  proof (cases "objs = []")
    case True
    then show ?thesis by (simp add: track_all_def x counters_trackObject)
  next
    case False
    from Cons.IH[OF False, of "trackObject obj type now d"]
    show ?thesis
      by (simp add: track_all_def x counters_trackObject currentCount_trackObject
          map_set_map_set add.assoc)
  qed
qed

lemma track_then_untrack_count:
  "currentCount (untrackObject obj (trackObject obj type now d)) type
     = max 0 (currentCount d type)"
  by (simp add: untrackObject_def trackObject_def currentCount_def map_get_map_set)

text \<open>
  C9. After 101 objects are tracked under one tag by a new detector, \<open>checkForLeaks\<close> writes
  one warning, for that tag and the count 101. In every state the detector reaches, tracking
  an object and then untracking it leaves the counter of the tag at its value before, and no
  counter is negative; the counter that \<open>untrackObject\<close> writes is never negative.
\<close>

theorem leak_detector_counts:
  "(length objs = 101 \<longrightarrow>
      checkForLeaks (track_all objs type (new_detector :: 'o detector)) = [LeakWarning type 101])
   \<and> currentCount
        (untrackObject obj (trackObject obj type now (run_detector ops (new_detector :: 'o detector))))
        type
      = currentCount (run_detector ops (new_detector :: 'o detector)) type
   \<and> 0 \<le> currentCount (untrackObject obj (run_detector ops (new_detector :: 'o detector))) type
   \<and> (references d obj = Some ref \<longrightarrow>
        0 \<le> currentCount (untrackObject obj (d :: 'o detector)) (ref_type ref))"
proof -
  have warn: "checkForLeaks (track_all objs type (new_detector :: 'o detector))
      = [LeakWarning type 101]" if "length objs = 101"
  proof -
    from that have "objs \<noteq> []" by auto
    from counters_track_all[OF this, of type "new_detector :: 'o detector"] that
    have "counters (track_all objs type (new_detector :: 'o detector)) = [(type, 101)]"
      by (simp add: new_detector_def currentCount_def)
    then show ?thesis by (simp add: checkForLeaks_def)
  qed
  let ?d = "run_detector ops (new_detector :: 'o detector)"
  have nn: "counters_nonneg ?d"
    by (rule counters_nonneg_run) (rule counters_nonneg_new)
  have restored: "currentCount (untrackObject obj (trackObject obj type now ?d)) type
      = currentCount ?d type"
    using currentCount_nonneg[OF nn, of type] by (simp add: track_then_untrack_count)
  have floor: "0 \<le> currentCount (untrackObject obj ?d) type"
    by (rule currentCount_nonneg) (rule counters_nonneg_untrackObject[OF nn])
  have written: "0 \<le> currentCount (untrackObject obj d) (ref_type ref)"
    if "references d obj = Some ref"
    using that by (simp add: untrackObject_def currentCount_def map_get_map_set)
  from warn restored floor written show ?thesis by blast
qed

theorem leak_detector_counts_witness:
  "checkForLeaks (track_all hundred_and_one ''TestObject'' new_detector)
     = [LeakWarning ''TestObject'' 101]
   \<and> 0 \<le> currentCount
        (untrackObject (1 :: nat) (trackObject 1 ''TestObject'' 0 new_detector)) ''TestObject''"
proof -
  have len: "length hundred_and_one = 101" by (simp add: hundred_and_one_def)
  have ref: "references (trackObject (1 :: nat) ''TestObject'' 0 new_detector) 1
      = Some \<lparr>ref_type = ''TestObject'', createdAt = 0\<rparr>"
    by (simp add: trackObject_def)
  note t = leak_detector_counts[where objs = hundred_and_one and type = "''TestObject''"
      and d = "trackObject (1 :: nat) ''TestObject'' 0 new_detector" and obj = 1
      and ref = "\<lparr>ref_type = ''TestObject'', createdAt = 0\<rparr>"]
  from t len ref show ?thesis by simp
qed

section \<open>The timer of the leak detector\<close>

text \<open>
  C8. \<open>startLeakDetection\<close> called while detection is running: both timers are active, the
  detector holds the handle of the second only, and after \<open>stopLeakDetection\<close> has cleared
  that handle the first timer is still active.
\<close>

theorem startLeakDetection_twice:
  "active_timers (snd started_twice) = [1, 2]
   \<and> checkInterval (fst started_twice) = Some 2
   \<and> checkInterval (fst (stopLeakDetection started_twice)) = None
   \<and> active_timers (snd (stopLeakDetection started_twice)) = [1]
   \<and> stopLeakDetection (stopLeakDetection started_twice) = stopLeakDetection started_twice"
  by (simp add: started_twice_def startLeakDetection_def stopLeakDetection_def
      setInterval_def clearInterval_def new_detector_def new_runtime_def active_timers_def)

section \<open>Properties of \<open>EventListenerManager\<close>\<close>

lemma registered_after_add:
  "map_get (listeners (fst (addEventListener target type listener options m)))
     (getListenerKey target type listener) \<noteq> None"
  by (simp add: addEventListener_def Let_def map_get_map_set)

text \<open>
  C10. The key of a subscription is the constructor name of the target, the event type and
  the name of the listener, \<open>anonymous\<close> for an unnamed one, joined by hyphens. When two
  targets have the same constructor name and two listeners the same name (both unnamed
  included), then after the first is added for an event type, adding the second for that
  type calls nothing, leaves the manager as it is and does not raise the listener count.
\<close>

theorem addEventListener_same_key:
  "getListenerKey t1 type l1
     = constructor_name t1 @ ''-'' @ type @ ''-'' @
         (if listener_name l1 = '''' then ''anonymous'' else listener_name l1)
   \<and> (constructor_name t1 = constructor_name t2 \<and> listener_name l1 = listener_name l2 \<longrightarrow>
        addEventListener t2 type l2 o2 (fst (addEventListener t1 type l1 o1 m))
          = (fst (addEventListener t1 type l1 o1 m), [])
        \<and> getListenerCount
            (fst (addEventListener t2 type l2 o2 (fst (addEventListener t1 type l1 o1 m))))
          = getListenerCount (fst (addEventListener t1 type l1 o1 m)))"
proof -
  have key: "getListenerKey t1 type l1
     = constructor_name t1 @ ''-'' @ type @ ''-'' @
         (if listener_name l1 = '''' then ''anonymous'' else listener_name l1)"
    by (simp add: getListenerKey_def)
  have second: "addEventListener t2 type l2 o2 (fst (addEventListener t1 type l1 o1 m))
      = (fst (addEventListener t1 type l1 o1 m), [])"
    if "constructor_name t1 = constructor_name t2" "listener_name l1 = listener_name l2"
  proof -
    from that have "getListenerKey t2 type l2 = getListenerKey t1 type l1"
      by (simp add: getListenerKey_def)
    with registered_after_add[of t1 type l1 o1 m]
    have "map_get (listeners (fst (addEventListener t1 type l1 o1 m)))
        (getListenerKey t2 type l2) \<noteq> None"
      by simp
    then show ?thesis
      by (simp add: addEventListener_def[of t2] Let_def)
  qed
  from key second show ?thesis by simp
qed

theorem addEventListener_same_key_witness:
  "listener_identity first_arrow \<noteq> listener_identity second_arrow
   \<and> target_identity window_a \<noteq> target_identity window_b
   \<and> addEventListener window_b ''click'' second_arrow []
       (fst (addEventListener window_a ''click'' first_arrow [] new_listener_manager))
     = (fst (addEventListener window_a ''click'' first_arrow [] new_listener_manager), [])
   \<and> getListenerCount
       (fst (addEventListener window_b ''click'' second_arrow []
          (fst (addEventListener window_a ''click'' first_arrow [] new_listener_manager)))) = 1"
proof -
  have same: "constructor_name window_a = constructor_name window_b"
    "listener_name first_arrow = listener_name second_arrow"
    by (simp_all add: window_a_def window_b_def first_arrow_def second_arrow_def)
  have distinct: "listener_identity first_arrow \<noteq> listener_identity second_arrow"
    "target_identity window_a \<noteq> target_identity window_b"
    by (simp_all add: window_a_def window_b_def first_arrow_def second_arrow_def)
  have one: "getListenerCount
      (fst (addEventListener window_a ''click'' first_arrow [] new_listener_manager)) = 1"
    by (simp add: addEventListener_def getListenerCount_def new_listener_manager_def Let_def)
  note t = addEventListener_same_key[where ?t1.0 = window_a and ?t2.0 = window_b
      and ?l1.0 = first_arrow and ?l2.0 = second_arrow and type = "''click''"
      and ?o1.0 = "[]" and ?o2.0 = "[]" and m = new_listener_manager]
  from t same distinct one show ?thesis by simp
qed

section \<open>The end-to-end scenario\<close>

lemma getErrorType_network_timeout: "getErrorType network_timeout = Inr Network"
  by code_simp

lemma retry_three_failures:
  "calls w = 0 \<Longrightarrow>
   retryDelete (new_retry_manager 3 1000) fails_three_times ''p1'' 0 w =
     (Resolve True,
      w\<lparr>calls := 4,
        trace := trace w @
          [DeleteCall ''p1'', Console (RetryWarning 1 3 1000 network_timeout), Wait 1000,
           DeleteCall ''p1'', Console (RetryWarning 2 3 2000 network_timeout), Wait 2000,
           DeleteCall ''p1'', Console (RetryWarning 3 3 4000 network_timeout), Wait 4000,
           DeleteCall ''p1'']\<rparr>)"
  by (simp add: retryDelete.simps fails_three_times_def new_retry_manager_def
      handleDeleteError_def getErrorType_network_timeout)

lemma scenario_run:
  "scenario cb t_start t_end =
     (Inr True,
      \<lparr>calls = 4,
       trace =
         [StartOperation ''delete-project-p1'',
          TrackObject roof_repair ''DeleteProjectData'',
          UpdateCall cb (RemoveById ''p1''),
          DeleteCall ''p1'', Console (RetryWarning 1 3 1000 network_timeout), Wait 1000,
          DeleteCall ''p1'', Console (RetryWarning 2 3 2000 network_timeout), Wait 2000,
          DeleteCall ''p1'', Console (RetryWarning 3 3 4000 network_timeout), Wait 4000,
          DeleteCall ''p1'',
          EndOperation ''delete-project-p1'',
          UntrackObject roof_repair,
          SuccessCall ''p1'' (Some roof_repair)],
       deletingStates = [''p1'' \<mapsto> False],
       deleteErrors = [''p1'' \<mapsto> None],
       optimisticManager = new_optimistic_manager,
       statsManager = recordSuccess t_end t_start new_stats\<rparr>)"
proof -
  let ?h3 = "\<lparr>calls = 0,
       trace =
         [StartOperation ''delete-project-p1'',
          TrackObject roof_repair ''DeleteProjectData'',
          UpdateCall cb (RemoveById ''p1'')],
       deletingStates = [''p1'' \<mapsto> True],
       deleteErrors = [''p1'' \<mapsto> None],
       optimisticManager =
         \<lparr>deletedProjects = [''p1'' \<mapsto> roof_repair], rollbackCallbacks = [''p1'' \<mapsto> cb]\<rparr>,
       statsManager = new_stats\<rparr>"
  have "calls ?h3 = 0" by simp
  note r = retry_three_failures[OF this]
  show ?thesis
    unfolding scenario_def executeDelete_def
    by (simp add: default_options_def new_hook_state_def emit_def operation_name_def
        optimisticDelete_def new_optimistic_manager_def r success_path_def
        untrack_events_def confirmDelete_def startDelete_def)
qed

text \<open>
  C1. In the scenario \<open>executeDelete\<close> returns \<open>true\<close>. The calls it makes are, in order:
  the removal through the update callback, once and before the first call of the delete
  operation; four calls of the delete operation, with waits of 1000, 2000 and 4000 ms
  between them; the success callback, once, with \<open>"p1"\<close> and the snapshot. No reinsertion
  is made and nothing stays pending. Afterwards \<open>isDeleting("p1")\<close> is \<open>false\<close>, and
  \<open>getDeleteError("p1")\<close> is \<open>null\<close>, the value the entry was cleared to at the start.
\<close>

theorem executeDelete_scenario:
  "fst (scenario cb t_start t_end) = Inr True
   \<and> trace (snd (scenario cb t_start t_end)) =
       [StartOperation ''delete-project-p1'',
        TrackObject roof_repair ''DeleteProjectData'',
        UpdateCall cb (RemoveById ''p1''),
        DeleteCall ''p1'', Console (RetryWarning 1 3 1000 network_timeout), Wait 1000,
        DeleteCall ''p1'', Console (RetryWarning 2 3 2000 network_timeout), Wait 2000,
        DeleteCall ''p1'', Console (RetryWarning 3 3 4000 network_timeout), Wait 4000,
        DeleteCall ''p1'',
        EndOperation ''delete-project-p1'',
        UntrackObject roof_repair,
        SuccessCall ''p1'' (Some roof_repair)]
   \<and> calls (snd (scenario cb t_start t_end)) = 4
   \<and> isDeleting (snd (scenario cb t_start t_end)) ''p1'' = False
   \<and> getDeleteError (snd (scenario cb t_start t_end)) ''p1'' = Null
   \<and> \<not> pending (optimisticManager (snd (scenario cb t_start t_end))) ''p1''"
  by (simp add: scenario_run isDeleting_def getDeleteError_def pending_def
      new_optimistic_manager_def)

text \<open>The error read back after the scenario is not \<open>undefined\<close>.\<close>

theorem executeDelete_scenario_error_defined:
  "getDeleteError (snd (scenario 7 0 7000)) ''p1'' \<noteq> Undefined"
  by (simp add: scenario_run getDeleteError_def)

end
